theory Spec2Isabelle
  imports Complex_Main
begin

section \<open>Python values and exceptions\<close>

text \<open>
  Exceptions of the Python sources are values: every function that can raise returns
  \<open>error + 'a\<close>, with \<open>Inl\<close> the exception.  \<open>UnboundLocalError\<close> is the subclass of
  \<open>NameError\<close> that Python raises for a local variable read before assignment; it carries
  the variable's name.
\<close>

datatype error =
    IndexError
  | ValueError
  | TypeError
  | UnboundLocalError string
  | ExternalError string

definition is_NameError :: "error \<Rightarrow> bool" where
  "is_NameError e = (case e of UnboundLocalError _ \<Rightarrow> True | _ \<Rightarrow> False)"

text \<open>
  Floating-point numbers are abstracted to the reals, plus the one special value the
  sources can produce from finite data: \<open>nan\<close>, which \<open>np.mean\<close> returns (with a warning,
  not an exception) for an empty sequence.
\<close>

datatype npfloat = Num real | NaN

fun np_div :: "npfloat \<Rightarrow> real \<Rightarrow> npfloat" where
  "np_div (Num a) d = Num (a / d)"
| "np_div NaN d = NaN"

definition np_mean :: "real list \<Rightarrow> npfloat" where
  "np_mean vs = (if vs = [] then NaN else Num (sum_list vs / real (length vs)))"

text \<open>Evaluating a list comprehension whose body can raise: the first exception wins.\<close>

fun collect :: "(error + 'a) list \<Rightarrow> error + 'a list" where
  "collect [] = Inr []"
| "collect (r # rs) =
     (case r of
        Inl e \<Rightarrow> Inl e
      | Inr v \<Rightarrow> (case collect rs of Inl e \<Rightarrow> Inl e | Inr vs \<Rightarrow> Inr (v # vs)))"

section \<open>exconvnet/des_data/processing\_utils.py\<close>

text \<open>
  A catalog object is one row of raw DES data, read by position: field 1 is the right
  ascension, field 2 the declination, field 39 \<open>MAG_AUTO_G\<close>.  Reading a field the row
  does not have raises \<open>IndexError\<close>.  A sightline is a pair (ra, dec).
\<close>

type_synonym row = "real list"
type_synonym sightline = "real \<times> real"

definition getitem :: "row \<Rightarrow> int \<Rightarrow> error + real" where
  "getitem obj i =
     (let n = int (length obj); j = (if i < 0 then n + i else i)
      in if 0 \<le> j \<and> j < n then Inr (obj ! nat j) else Inl IndexError)"

text \<open>
  \<^verbatim>\<open>def ylabel(x, IDX=39):
    IDX = 39  # MAG_AUTO_G
    y = np.mean([obj[IDX] for obj in x]) / 1000
    return y\<close>
\<close>

definition ylabel :: "row list \<Rightarrow> int \<Rightarrow> error + npfloat" where
  "ylabel x IDX =
     (let IDX = 39 in
      case collect (map (\<lambda>obj. getitem obj IDX) x) of
        Inl e \<Rightarrow> Inl e
      | Inr vs \<Rightarrow> Inr (np_div (np_mean vs) 1000))"

text \<open>\<^verbatim>\<open>Y = np.array([ylabel(x) for x in X])\<close>\<close>

definition gen_labels :: "row list list \<Rightarrow> error + npfloat list" where
  "gen_labels X = collect (map (\<lambda>x. ylabel x 39) X)"

text \<open>\<^verbatim>\<open>return np.array([[x[1], x[2]] for x in arr])\<close>\<close>

definition strip2RAdec :: "row list \<Rightarrow> error + (real \<times> real) list" where
  "strip2RAdec arr =
     collect (map (\<lambda>x.
        case getitem x 1 of
          Inl e \<Rightarrow> Inl e
        | Inr ra \<Rightarrow> (case getitem x 2 of Inl e \<Rightarrow> Inl e | Inr dec \<Rightarrow> Inr (ra, dec))) arr)"

text \<open>
  \<open>scipy.spatial.KDTree\<close> is a library class.  The model keeps the points the tree was
  built from; building a tree from no points raises \<open>ValueError\<close> (the data is not
  two-dimensional).  \<open>query_ball_point\<close> returns the indices of the points in the ball around
  the query point.  The library works with squared distances: a point is in the ball when
  its squared distance is at most \<open>r * r\<close>.  For \<open>r \<ge> 0\<close> these are the points at distance at
  most \<open>r\<close>; a negative \<open>r\<close> selects like \<open>- r\<close>.  The library leaves the order of the indices
  open for a single query point (it is the order of its traversal); the model lists them by
  increasing index, which is the order within one leaf of the tree.
\<close>

definition euclid_dist :: "real \<times> real \<Rightarrow> real \<times> real \<Rightarrow> real" where
  "euclid_dist p q = sqrt ((fst p - fst q)\<^sup>2 + (snd p - snd q)\<^sup>2)"

record kdtree =
  data :: "(real \<times> real) list"

definition KDTree :: "(real \<times> real) list \<Rightarrow> error + kdtree" where
  "KDTree coords = (if coords = [] then Inl ValueError else Inr \<lparr>data = coords\<rparr>)"

definition query_ball_point :: "kdtree \<Rightarrow> real \<times> real \<Rightarrow> real \<Rightarrow> nat list" where
  "query_ball_point tree q r =
     filter (\<lambda>i. (euclid_dist (data tree ! i) q)\<^sup>2 \<le> r * r) [0 ..< length (data tree)]"

text \<open>
  \<open>arr[idxs]\<close> with a list of indices: the rows at these positions, in the order of the
  list; an index out of bounds raises \<open>IndexError\<close>.
\<close>

definition take_rows :: "row list \<Rightarrow> nat list \<Rightarrow> error + row list" where
  "take_rows arr idxs =
     collect (map (\<lambda>i. if i < length arr then Inr (arr ! i) else Inl IndexError) idxs)"

text \<open>
  The sort key of \<open>get_x_i\<close>:
  \<^verbatim>\<open>lambda x: np.linalg.norm(np.array(x[1] - sightline[0], x[2] - sightline[1]))\<close>
  The two differences are passed to \<open>np.array\<close> as two positional arguments, not as one
  list.  The second positional parameter of \<open>np.array\<close> is \<open>dtype\<close>; the second difference
  is a NumPy scalar, which NumPy accepts there through its \<open>dtype\<close> attribute (float64).
  So the call builds the zero-dimensional array of the first difference alone, and its
  2-norm is the square root of its square.  Both fields are still read (and can raise).
\<close>

definition np_array :: "real \<Rightarrow> real \<Rightarrow> real" where
  "np_array object dtype = object"

definition linalg_norm :: "real \<Rightarrow> real" where
  "linalg_norm v = sqrt (v * v)"

definition sort_key_fn :: "sightline \<Rightarrow> row \<Rightarrow> error + real" where
  "sort_key_fn sightline x =
     (case getitem x 1 of
        Inl e \<Rightarrow> Inl e
      | Inr x1 \<Rightarrow>
          (case getitem x 2 of
             Inl e \<Rightarrow> Inl e
           | Inr x2 \<Rightarrow> Inr (linalg_norm (np_array (x1 - fst sightline) (x2 - snd sightline)))))"

text \<open>
  Python's \<open>sorted\<close> computes the key of every element once, then sorts stably by key;
  \<open>sort_key\<close> is a stable insertion sort.
\<close>

definition sorted_by :: "('a \<Rightarrow> error + real) \<Rightarrow> 'a list \<Rightarrow> error + 'a list" where
  "sorted_by key xs =
     (case collect (map key xs) of
        Inl e \<Rightarrow> Inl e
      | Inr ks \<Rightarrow> Inr (map snd (sort_key fst (zip ks xs))))"

text \<open>
  \<^verbatim>\<open>def get_x_i(sightline, tree, arr, THRESHOLD=0.0333333333):
    x_i = arr[tree.query_ball_point(sightline, THRESHOLD)]
    x_i = list(x_i)
    x_i = sorted(x_i, key=lambda x: ...)
    return np.array(x_i)\<close>
\<close>

definition get_x_i :: "sightline \<Rightarrow> kdtree \<Rightarrow> row list \<Rightarrow> real \<Rightarrow> error + row list" where
  "get_x_i sightline tree arr THRESHOLD =
     (case take_rows arr (query_ball_point tree sightline THRESHOLD) of
        Inl e \<Rightarrow> Inl e
      | Inr x_i \<Rightarrow> sorted_by (sort_key_fn sightline) x_i)"

definition DEFAULT_THRESHOLD :: real where
  "DEFAULT_THRESHOLD = 0.0333333333"

text \<open>
  \<^verbatim>\<open>def compute_X(arr, sightlines):
    coords = strip2RAdec(arr)
    tree = KDTree(coords)
    for i, sightline in enumerate(sightlines):
        X[i] = get_x_i(sightline, tree, arr)
    return X\<close>
\<close>

definition compute_X :: "row list \<Rightarrow> sightline list \<Rightarrow> error + row list list" where
  "compute_X arr sightlines =
     (case strip2RAdec arr of
        Inl e \<Rightarrow> Inl e
      | Inr coords \<Rightarrow>
          (case KDTree coords of
             Inl e \<Rightarrow> Inl e
           | Inr tree \<Rightarrow>
               collect (map (\<lambda>sightline. get_x_i sightline tree arr DEFAULT_THRESHOLD) sightlines)))"


section \<open>n2j/inference/inference\_manager.py\<close>

subsection \<open>Arrays, files and the trace of computations\<close>

text \<open>
  A cell of an array is a number or \<open>None\<close>: the unspecified content of memory that
  \<open>np.empty\<close> allocates and nothing has written yet.  Arrays are nested lists by number of
  axes; \<open>IdxArr\<close> is an integer array of indices.
\<close>

type_synonym cell = "real option"

datatype npy =
    Arr0 cell
  | Arr1 "cell list"
  | Arr2 "cell list list"
  | Arr3 "cell list list list"
  | IdxArr "nat list"

text \<open>The value a Python call returns: \<open>None\<close> for a body that ends without \<open>return\<close>.\<close>

datatype pyval = PyNone | PyArr npy

text \<open>
  The world outside the manager: the \<open>.npy\<close> files by path; a trace that records every
  run of an underlying computation (sampling the network, a call into \<open>infer_utils\<close>), so
  that the number of runs can be counted; and \<open>memory\<close>, what the memory that \<open>np.empty\<close>
  hands out happens to hold, by position.  It differs from run to run.
\<close>

record world =
  files :: "string \<Rightarrow> npy option"
  trace :: "string list"
  memory :: "nat \<Rightarrow> real"

definition np_save :: "string \<Rightarrow> npy \<Rightarrow> world \<Rightarrow> world" where
  "np_save path a w = w\<lparr>files := (files w)(path \<mapsto> a)\<rparr>"

definition log_call :: "string \<Rightarrow> world \<Rightarrow> world" where
  "log_call name w = w\<lparr>trace := trace w @ [name]\<rparr>"

definition path_join :: "string \<Rightarrow> string \<Rightarrow> string" where
  "path_join dir name = dir @ ''/'' @ name"

fun show_nat :: "nat \<Rightarrow> string" where
  "show_nat n =
     (if n < 10 then [''0123456789'' ! n]
      else show_nat (n div 10) @ [''0123456789'' ! (n mod 10)])"

text \<open>\<open>a.squeeze()\<close>: the axes of length one are removed.\<close>

definition squeeze1 :: "cell list \<Rightarrow> npy" where
  "squeeze1 xs = (case xs of [c] \<Rightarrow> Arr0 c | _ \<Rightarrow> Arr1 xs)"

definition squeeze2 :: "cell list list \<Rightarrow> npy" where
  "squeeze2 rows =
     (case rows of
        [r] \<Rightarrow> squeeze1 r
      | _ \<Rightarrow> if rows \<noteq> [] \<and> list_all (\<lambda>r. length r = 1) rows then Arr1 (map hd rows)
             else Arr2 rows)"

definition squeeze3 :: "cell list list list \<Rightarrow> npy" where
  "squeeze3 ms =
     (case ms of
        [m] \<Rightarrow> squeeze2 m
      | _ \<Rightarrow> if ms \<noteq> [] \<and> list_all (\<lambda>m. length m = 1) ms then squeeze2 (map hd ms)
             else if ms \<noteq> [] \<and> list_all (list_all (\<lambda>r. length r = 1)) ms
               then Arr2 (map (map hd) ms)
             else Arr3 ms)"

fun squeeze :: "npy \<Rightarrow> npy" where
  "squeeze (Arr0 c) = Arr0 c"
| "squeeze (Arr1 xs) = squeeze1 xs"
| "squeeze (Arr2 rows) = squeeze2 rows"
| "squeeze (Arr3 ms) = squeeze3 ms"
| "squeeze (IdxArr is) = IdxArr is"


text \<open>\<open>a[idx, :]\<close>: the entry \<open>idx\<close> of the first axis of an array with at least two axes.\<close>

fun index_row :: "npy \<Rightarrow> nat \<Rightarrow> error + npy" where
  "index_row (Arr2 rows) idx = (if idx < length rows then Inr (Arr1 (rows ! idx)) else Inl IndexError)"
| "index_row (Arr3 ms) idx = (if idx < length ms then Inr (Arr2 (ms ! idx)) else Inl IndexError)"
| "index_row _ idx = Inl IndexError"









subsection \<open>Datasets and loaders\<close>

text \<open>
  An example as the loader yields it: an identifier, and the row \<open>y\<close> of standardised
  targets (the dataset has applied its transforms).  A dataset is a list of examples; the
  access to an element can raise (a \<open>Subset\<close> with an index out of range), so an element is
  \<open>error + example\<close>.  A batch is what one step of the loader yields.
\<close>

record example =
  ident :: nat
  y :: "real list"

type_synonym dataset = "(error + example) list"
type_synonym batch = "error + example list"

text \<open>
  \<open>DataLoader(dataset, batch_size, shuffle=False, drop_last=...)\<close> over a dataset in the
  order given: consecutive batches of \<open>batch_size\<close> elements; the remaining elements form a
  last, smaller batch, which \<open>drop_last=True\<close> leaves out.  A batch size of zero is refused.
\<close>

definition DataLoader :: "dataset \<Rightarrow> nat \<Rightarrow> bool \<Rightarrow> error + batch list" where
  "DataLoader ds bs drop_last =
     (if bs = 0 then Inl ValueError
      else
        let n_full = length ds div bs;
            full = map (\<lambda>i. collect (take bs (drop (i * bs) ds))) [0 ..< n_full];
            rest = drop (n_full * bs) ds
        in Inr (if drop_last \<or> rest = [] then full else full @ [collect rest]))"

text \<open>
  The manager, after its datasets are loaded.  \<open>Y_mean\<close> and \<open>Y_std\<close> have \<open>Y_dim\<close> entries,
  as have the target rows.
\<close>

record manager =
  seed :: nat
  out_dir :: string
  batch_size :: nat
  Y_dim :: nat
  Y_mean :: "real list"
  Y_std :: "real list"
  train_dataset :: dataset
  train_loader :: "batch list"
  val_dataset :: dataset
  val_loader :: "batch list"

text \<open>
  \<open>load_dataset\<close>, as far as the loaders go.  The training loader draws its order at random
  (a subset sampler, a weighted sampler or a shuffle): \<open>order\<close> is the list of dataset
  positions drawn, and the loader runs over them with \<open>drop_last=True\<close>.  The test loader is
  \<^verbatim>\<open>DataLoader(self.val_dataset, batch_size=self.batch_size, shuffle=False,
           num_workers=self.num_workers, drop_last=True)\<close>
\<close>

definition load_dataset :: "manager \<Rightarrow> dataset \<Rightarrow> bool \<Rightarrow> nat \<Rightarrow> nat list \<Rightarrow> error + manager" where
  "load_dataset self dataset is_train batch_size' order =
     (let self = self\<lparr>batch_size := batch_size'\<rparr> in
      if is_train then
        (case DataLoader
                (map (\<lambda>i. if i < length dataset then dataset ! i else Inl IndexError) order)
                (batch_size self) True of
           Inl e \<Rightarrow> Inl e
         | Inr loader \<Rightarrow> Inr (self\<lparr>train_dataset := dataset, train_loader := loader\<rparr>))
      else
        (case DataLoader dataset (batch_size self) True of
           Inl e \<Rightarrow> Inl e
         | Inr loader \<Rightarrow> Inr (self\<lparr>val_dataset := dataset, val_loader := loader\<rparr>)))"

subsection \<open>Collaborators outside the source files\<close>

text \<open>
  The network and the functions of \<open>n2j.inference.infer_utils\<close>, \<open>scipy\<close> and the random
  generator are parameters.
  \<^item> \<open>draw e mc_iter s t\<close>: the de-standardised value the network's sampling head draws for
    example \<open>e\<close> in Monte-Carlo iterate \<open>mc_iter\<close>, sample \<open>s\<close>, target \<open>t\<close>;
  \<^item> \<open>iutils_get_omega_post\<close> runs the chain: it may change the world (it persists the chain)
    and returns some Python value;
  \<^item> \<open>rng_choice seed n p size\<close>: \<open>np.random.default_rng(seed).choice(np.arange(n), p=p,
    replace=False, size=size)\<close>;
  \<^item> \<open>kde_pdf ys\<close>: the Gaussian kernel density estimate fitted to \<open>ys\<close> (Scott's rule),
    evaluated at \<open>ys\<close>.
\<close>

type_synonym kwargs = "(string \<times> string) list"

record env =
  draw :: "example \<Rightarrow> nat \<Rightarrow> nat \<Rightarrow> nat \<Rightarrow> real"
  iutils_get_log_p_k_given_omega_int :: "npy \<Rightarrow> npy \<Rightarrow> error + npy"
  iutils_get_omega_post ::
    "npy \<Rightarrow> npy \<Rightarrow> kwargs \<Rightarrow> real option \<Rightarrow> real option \<Rightarrow> world \<Rightarrow> error + pyval \<times> world"
  iutils_get_mcmc_samples :: "string \<Rightarrow> kwargs \<Rightarrow> world \<Rightarrow> error + npy"
  iutils_get_kappa_log_weights :: "npy \<Rightarrow> npy \<Rightarrow> npy \<Rightarrow> error + npy"
  rng_choice :: "nat \<Rightarrow> nat \<Rightarrow> real list \<Rightarrow> nat \<Rightarrow> error + nat list"
  kde_pdf :: "npy \<Rightarrow> real list"

subsection \<open>get\_bnn\_kappa\<close>

text \<open>\<open>np.empty([n_test, n_mc_dropout, n_samples, Y_dim])\<close>\<close>

definition np_empty4 :: "nat \<Rightarrow> nat \<Rightarrow> nat \<Rightarrow> nat \<Rightarrow> cell list list list list" where
  "np_empty4 a b c d = replicate a (replicate b (replicate c (replicate d None)))"

text \<open>
  \<open>mc_samples\<close> of one forward pass over a batch: shape \<open>[B, n_samples, Y_dim]\<close>.
\<close>

definition mc_samples :: "env \<Rightarrow> example list \<Rightarrow> nat \<Rightarrow> nat \<Rightarrow> nat \<Rightarrow> real list list list" where
  "mc_samples E b mc_iter n_samples ydim =
     map (\<lambda>e. map (\<lambda>s. map (\<lambda>t. draw E e mc_iter s t) [0 ..< ydim]) [0 ..< n_samples]) b"

text \<open>
  \<^verbatim>\<open>samples[i*B: (i+1)*B, mc_iter, :, :] = mc_samples\<close>
  The slice is clipped to the rows the array has.  When it has \<open>B\<close> rows, row by row is
  written; a value of one row broadcasts over a shorter (here empty) slice; otherwise the
  shapes do not fit and NumPy raises \<open>ValueError\<close>.
\<close>

definition assign_mc ::
  "cell list list list list \<Rightarrow> nat \<Rightarrow> nat \<Rightarrow> nat \<Rightarrow> real list list list
     \<Rightarrow> error + cell list list list list" where
  "assign_mc samples lo B mc_iter vals =
     (let n = length samples; a = min lo n; b = min (lo + B) n; k = b - a in
      if k = B then
        Inr (take a samples
             @ map2 (\<lambda>row v. row[mc_iter := map (map Some) v]) (take k (drop a samples)) vals
             @ drop b samples)
      else if B = 1 then Inr samples
      else Inl ValueError)"

text \<open>
  \<^verbatim>\<open>for mc_iter in range(n_mc_dropout):
    x, u = self.model(batch)
    B = u.shape[0]  # [this batch size]
    self.model.global_nll.set_trained_pred(u)
    mc_samples = self.model.global_nll.sample(Y_mean, Y_std, n_samples)
    samples[i*B: (i+1)*B, mc_iter, :, :] = mc_samples\<close>
\<close>

fun bnn_mc_loop ::
  "env \<Rightarrow> nat \<Rightarrow> nat \<Rightarrow> nat \<Rightarrow> example list \<Rightarrow> nat list \<Rightarrow> cell list list list list
     \<Rightarrow> error + cell list list list list" where
  "bnn_mc_loop E n_samples ydim i b [] samples = Inr samples"
| "bnn_mc_loop E n_samples ydim i b (mc_iter # rest) samples =
     (let B = length b in
      case assign_mc samples (i * B) B mc_iter (mc_samples E b mc_iter n_samples ydim) of
        Inl e \<Rightarrow> Inl e
      | Inr samples' \<Rightarrow> bnn_mc_loop E n_samples ydim i b rest samples')"

text \<open>\<^verbatim>\<open>for i, batch in enumerate(self.val_loader): ...\<close>\<close>

fun bnn_batch_loop ::
  "env \<Rightarrow> nat \<Rightarrow> nat \<Rightarrow> nat \<Rightarrow> nat \<Rightarrow> batch list \<Rightarrow> cell list list list list
     \<Rightarrow> error + cell list list list list" where
  "bnn_batch_loop E n_samples n_mc_dropout ydim i [] samples = Inr samples"
| "bnn_batch_loop E n_samples n_mc_dropout ydim i (bt # rest) samples =
     (case bt of
        Inl e \<Rightarrow> Inl e
      | Inr b \<Rightarrow>
          (case bnn_mc_loop E n_samples ydim i b [0 ..< n_mc_dropout] samples of
             Inl e \<Rightarrow> Inl e
           | Inr samples' \<Rightarrow> bnn_batch_loop E n_samples n_mc_dropout ydim (Suc i) rest samples'))"

text \<open>
  \<^verbatim>\<open>samples = samples.transpose(0, 3, 1, 2).reshape([n_test, self.Y_dim, -1])\<close>
  Entry \<open>[e, t, m * n_samples + s]\<close> of the result is entry \<open>[e, m, s, t]\<close> of \<open>samples\<close>.  The
  length \<open>-1\<close> cannot be inferred when \<open>n_test * Y_dim = 0\<close>: NumPy raises \<open>ValueError\<close>.
\<close>

definition transpose_reshape ::
  "cell list list list list \<Rightarrow> nat \<Rightarrow> nat \<Rightarrow> error + cell list list list" where
  "transpose_reshape samples n_test ydim =
     (if n_test * ydim = 0 then Inl ValueError
      else Inr (map (\<lambda>row. map (\<lambda>t. concat (map (\<lambda>m. map (\<lambda>svec. svec ! t) m) row)) [0 ..< ydim])
                  samples))"

text \<open>
  \<^verbatim>\<open>path = os.path.join(self.out_dir, 'k_bnn.npy')
if os.path.exists(path):
    samples = np.load(path)
    return samples
...
n_test = len(self.val_dataset)
samples = np.empty([n_test, n_mc_dropout, n_samples, self.Y_dim])
for i, batch in enumerate(self.val_loader): ...
samples = samples.transpose(0, 3, 1, 2).reshape([n_test, self.Y_dim, -1])
np.save(path, samples)
return samples\<close>
\<close>

definition get_bnn_kappa :: "env \<Rightarrow> manager \<Rightarrow> nat \<Rightarrow> nat \<Rightarrow> world \<Rightarrow> error + npy \<times> world" where
  "get_bnn_kappa E self n_samples n_mc_dropout w =
     (let path = path_join (out_dir self) ''k_bnn.npy'' in
      case files w path of
        Some samples \<Rightarrow> Inr (samples, w)
      | None \<Rightarrow>
          (let n_test = length (val_dataset self);
               w1 = log_call ''model.sample'' w;
               samples = np_empty4 n_test n_mc_dropout n_samples (Y_dim self) in
           case bnn_batch_loop E n_samples n_mc_dropout (Y_dim self) 0 (val_loader self) samples of
             Inl e \<Rightarrow> Inl e
           | Inr samples \<Rightarrow>
               (case transpose_reshape samples n_test (Y_dim self) of
                  Inl e \<Rightarrow> Inl e
                | Inr out \<Rightarrow> Inr (Arr3 out, np_save path (Arr3 out) w1))))"

subsection \<open>get\_true\_kappa\<close>

text \<open>\<open>batch.y*Y_std + Y_mean\<close>, for one row of targets.\<close>

definition destandardize :: "manager \<Rightarrow> real list \<Rightarrow> real list" where
  "destandardize self yrow =
     map (\<lambda>(v, s, m). v * s + m) (zip yrow (zip (Y_std self) (Y_mean self)))"

text \<open>\<^verbatim>\<open>true_kappa[i*B: (i+1)*B, :] = (batch.y*Y_std + Y_mean).cpu().numpy()\<close>\<close>

definition assign_rows ::
  "cell list list \<Rightarrow> nat \<Rightarrow> nat \<Rightarrow> real list list \<Rightarrow> error + cell list list" where
  "assign_rows arr lo B vals =
     (let n = length arr; a = min lo n; b = min (lo + B) n; k = b - a in
      if k = B then Inr (take a arr @ map (map Some) vals @ drop b arr)
      else if B = 1 then Inr arr
      else Inl ValueError)"

fun true_kappa_loop ::
  "manager \<Rightarrow> nat \<Rightarrow> batch list \<Rightarrow> cell list list \<Rightarrow> error + cell list list" where
  "true_kappa_loop self i [] true_kappa = Inr true_kappa"
| "true_kappa_loop self i (bt # rest) true_kappa =
     (case bt of
        Inl e \<Rightarrow> Inl e
      | Inr b \<Rightarrow>
          (let B = length b in
           case assign_rows true_kappa (i * B) B (map (\<lambda>e. destandardize self (y e)) b) of
             Inl e \<Rightarrow> Inl e
           | Inr true_kappa' \<Rightarrow> true_kappa_loop self (Suc i) rest true_kappa'))"

text \<open>
  \<^verbatim>\<open>if is_train:
    loader = self.train_loader
    suffix = 'train'
else:
    loader = self.val_loader
    suffix = 'val'
path = os.path.join(self.out_dir, f'k_{suffix}{add_suffix}.npy')
if os.path.exists(path):
    true_kappa = np.load(path)
    return true_kappa
...
n_test = len(self.val_dataset)
true_kappa = np.empty([n_test, self.Y_dim])
for i, batch in enumerate(loader): ...
if save:
    np.save(path, true_kappa)
return true_kappa\<close>
\<close>

definition get_true_kappa ::
  "manager \<Rightarrow> bool \<Rightarrow> string \<Rightarrow> bool \<Rightarrow> world \<Rightarrow> error + npy \<times> world" where
  "get_true_kappa self is_train add_suffix save w =
     (let loader = (if is_train then train_loader self else val_loader self);
          suffix = (if is_train then ''train'' else ''val'');
          path = path_join (out_dir self) (''k_'' @ suffix @ add_suffix @ ''.npy'') in
      case files w path of
        Some true_kappa \<Rightarrow> Inr (true_kappa, w)
      | None \<Rightarrow>
          (let n_test = length (val_dataset self);
               w1 = log_call ''loader.y'' w;
               true_kappa = replicate n_test (replicate (Y_dim self) None) in
           case true_kappa_loop self 0 loader true_kappa of
             Inl e \<Rightarrow> Inl e
           | Inr true_kappa \<Rightarrow>
               Inr (Arr2 true_kappa, if save then np_save path (Arr2 true_kappa) w1 else w1)))"

subsection \<open>The reweighting chain\<close>

text \<open>
  \<^verbatim>\<open>path = os.path.join(self.out_dir, 'log_p_k_given_omega_int.npy')
if os.path.exists(path):
    return np.load(path)
k_train = self.get_true_kappa(is_train=True)
k_bnn = self.get_bnn_kappa(n_samples=n_samples, n_mc_dropout=n_mc_dropout)
log_p_k_given_omega_int = iutils.get_log_p_k_given_omega_int(k_train=k_train.squeeze(),
                                                             k_bnn=k_bnn.squeeze())
np.save(path, log_p_k_given_omega_int)
return log_p_k_given_omega_int\<close>
\<close>

definition get_log_p_k_given_omega_int ::
  "env \<Rightarrow> manager \<Rightarrow> nat \<Rightarrow> nat \<Rightarrow> world \<Rightarrow> error + npy \<times> world" where
  "get_log_p_k_given_omega_int E self n_samples n_mc_dropout w =
     (let path = path_join (out_dir self) ''log_p_k_given_omega_int.npy'' in
      case files w path of
        Some a \<Rightarrow> Inr (a, w)
      | None \<Rightarrow>
          (case get_true_kappa self True [] True w of
             Inl e \<Rightarrow> Inl e
           | Inr (k_train, w1) \<Rightarrow>
               (case get_bnn_kappa E self n_samples n_mc_dropout w1 of
                  Inl e \<Rightarrow> Inl e
                | Inr (k_bnn, w2) \<Rightarrow>
                    (case iutils_get_log_p_k_given_omega_int E (squeeze k_train) (squeeze k_bnn) of
                       Inl e \<Rightarrow> Inl e
                     | Inr log_p \<Rightarrow>
                         Inr (log_p,
                              np_save path log_p
                                (log_call ''iutils.get_log_p_k_given_omega_int'' w2))))))"

text \<open>
  \<^verbatim>\<open>def run_mcmc_for_omega_post(self, n_samples, n_mc_dropout, mcmc_kwargs,
                            bounds_lower=-np.inf, bounds_upper=np.inf):
    k_bnn = self.get_bnn_kappa(n_samples=n_samples, n_mc_dropout=n_mc_dropout)
    log_p_k_given_omega_int = self.get_log_p_k_given_omega_int(n_samples, n_mc_dropout)
    iutils.get_omega_post(k_bnn, log_p_k_given_omega_int, mcmc_kwargs,
                          bounds_lower, bounds_upper)\<close>
  The body ends after the call: what \<open>get_omega_post\<close> returns is dropped and the method
  returns \<open>None\<close>.  A bound \<open>None\<close> stands for the infinite default.
\<close>

definition run_mcmc_for_omega_post ::
  "env \<Rightarrow> manager \<Rightarrow> nat \<Rightarrow> nat \<Rightarrow> kwargs \<Rightarrow> real option \<Rightarrow> real option \<Rightarrow> world
     \<Rightarrow> error + pyval \<times> world" where
  "run_mcmc_for_omega_post E self n_samples n_mc_dropout mcmc_kwargs bounds_lower bounds_upper w =
     (case get_bnn_kappa E self n_samples n_mc_dropout w of
        Inl e \<Rightarrow> Inl e
      | Inr (k_bnn, w1) \<Rightarrow>
          (case get_log_p_k_given_omega_int E self n_samples n_mc_dropout w1 of
             Inl e \<Rightarrow> Inl e
           | Inr (log_p, w2) \<Rightarrow>
               (case iutils_get_omega_post E k_bnn log_p mcmc_kwargs bounds_lower bounds_upper
                       (log_call ''iutils.get_omega_post'' w2) of
                  Inl e \<Rightarrow> Inl e
                | Inr (dropped, w3) \<Rightarrow> Inr (PyNone, w3))))"

text \<open>
  \<^verbatim>\<open>path = os.path.join(self.out_dir, f'log_weights_{idx}.npy')
k_bnn = self.get_bnn_kappa(n_samples=n_samples, n_mc_dropout=n_mc_dropout)
log_p_k_given_omega_int = self.get_log_p_k_given_omega_int(n_samples, n_mc_dropout)
omega_post_samples = iutils.get_mcmc_samples(chain_path, chain_kwargs)
log_weights = iutils.get_kappa_log_weights(k_bnn[idx, :],
                                           omega_post_samples,
                                           log_p_k_given_omega_int[idx, :])
np.save(path, log_weights)
return log_weights\<close>
\<close>

definition get_kappa_log_weights ::
  "env \<Rightarrow> manager \<Rightarrow> nat \<Rightarrow> nat \<Rightarrow> nat \<Rightarrow> string \<Rightarrow> kwargs \<Rightarrow> world \<Rightarrow> error + npy \<times> world" where
  "get_kappa_log_weights E self idx n_samples n_mc_dropout chain_path chain_kwargs w =
     (let path = path_join (out_dir self) (''log_weights_'' @ show_nat idx @ ''.npy'') in
      case get_bnn_kappa E self n_samples n_mc_dropout w of
        Inl e \<Rightarrow> Inl e
      | Inr (k_bnn, w1) \<Rightarrow>
          (case get_log_p_k_given_omega_int E self n_samples n_mc_dropout w1 of
             Inl e \<Rightarrow> Inl e
           | Inr (log_p, w2) \<Rightarrow>
               (case iutils_get_mcmc_samples E chain_path chain_kwargs w2 of
                  Inl e \<Rightarrow> Inl e
                | Inr omega_post_samples \<Rightarrow>
                    (case index_row k_bnn idx of
                       Inl e \<Rightarrow> Inl e
                     | Inr k_bnn_idx \<Rightarrow>
                         (case index_row log_p idx of
                            Inl e \<Rightarrow> Inl e
                          | Inr log_p_idx \<Rightarrow>
                              (case iutils_get_kappa_log_weights E k_bnn_idx omega_post_samples
                                      log_p_idx of
                                 Inl e \<Rightarrow> Inl e
                               | Inr log_weights \<Rightarrow>
                                   Inr (log_weights,
                                        np_save path log_weights
                                          (log_call ''iutils.get_kappa_log_weights'' w2))))))))"

subsection \<open>reset\_val\_dataset\<close>




section \<open>exconvnet/des_data/fetcher.py\<close>

text \<open>
  The modules \<open>downloader\<close>, \<open>processing\<close>, \<open>fetching_utils\<close> and \<open>filter\<close> that \<open>fetch\<close> calls
  are parameters, as are the package directory and the clock.  Each of them can raise.
\<close>

type_synonym filter_obj = "nat list option \<times> string list option"

record fetch_env =
  gen_sightlines :: "sightline list"
  DefaultFilter :: "nat list option \<Rightarrow> string list option \<Rightarrow> error + filter_obj"
  sightlines2links :: "sightline list \<Rightarrow> error + string list"
  download :: "string list \<Rightarrow> error + row list"
  process_X :: "row list \<Rightarrow> sightline list \<Rightarrow> filter_obj \<Rightarrow> error + row list list"
  processing_gen_labels :: "row list list \<Rightarrow> error + npfloat list"
  datasets_dir :: string
  time_tag :: string

text \<open>The file system \<open>fetch\<close> writes to: the directories that exist and the saved arrays.\<close>

datatype saved = SavedX "row list list" | SavedY "npfloat list"

record fs =
  dirs :: "string list"
  saved_files :: "string \<Rightarrow> saved option"

definition os_mkdir :: "string \<Rightarrow> fs \<Rightarrow> fs" where
  "os_mkdir path f = f\<lparr>dirs := path # dirs f\<rparr>"

definition save_array :: "string \<Rightarrow> saved \<Rightarrow> fs \<Rightarrow> fs" where
  "save_array path a f = f\<lparr>saved_files := (saved_files f)(path \<mapsto> a)\<rparr>"

text \<open>
  \<^verbatim>\<open>def fetch(sightlines=None, cols=None, filters=None, save_path=None, gen_Y=True, verbose=True):
    if sightlines is None:
        sightlines = gen_sightlines()
    if save_path is None:
        ...
        save_path = os.path.join(exconvnet_dir, 'datasets')
    filter_obj = DefaultFilter(cols=cols, filters=filters)
    links = sightlines2links(sightlines)
    arr = download(links, verbose=verbose)
    X = process_X(arr, sightlines, filter_obj)
    if gen_Y:
        Y = gen_labels(X)
    if not(os.path.exists(save_path)):
        os.mkdir(save_path)
    tag = str(round(time.time()))
    x_fname = tag + '_X.npy'
    y_fname = tag + '_Y.npy'
    np.save(os.path.join(save_path, x_fname), X)
    np.save(os.path.join(save_path, y_fname), Y)
    return X, Y\<close>
  The local variable \<open>Y\<close> is \<open>Some\<close> once it is assigned; reading it while it is \<open>None\<close>
  raises \<open>UnboundLocalError\<close>.  The file system is returned also when \<open>fetch\<close> raises.
\<close>

definition fetch ::
  "fetch_env \<Rightarrow> sightline list option \<Rightarrow> nat list option \<Rightarrow> string list option \<Rightarrow> string option
     \<Rightarrow> bool \<Rightarrow> bool \<Rightarrow> fs \<Rightarrow> (error + row list list \<times> npfloat list) \<times> fs" where
  "fetch F sightlines cols filters save_path gen_Y verbose f =
     (let sightlines = (case sightlines of None \<Rightarrow> gen_sightlines F | Some s \<Rightarrow> s);
          save_path = (case save_path of None \<Rightarrow> datasets_dir F | Some p \<Rightarrow> p) in
      case DefaultFilter F cols filters of
        Inl e \<Rightarrow> (Inl e, f)
      | Inr filter_obj \<Rightarrow>
      (case sightlines2links F sightlines of
        Inl e \<Rightarrow> (Inl e, f)
      | Inr links \<Rightarrow>
      (case download F links of
        Inl e \<Rightarrow> (Inl e, f)
      | Inr arr \<Rightarrow>
      (case process_X F arr sightlines filter_obj of
        Inl e \<Rightarrow> (Inl e, f)
      | Inr X \<Rightarrow>
      (case (if gen_Y
             then (case processing_gen_labels F X of Inl e \<Rightarrow> Inl e | Inr labels \<Rightarrow> Inr (Some labels))
             else Inr None) of
        Inl e \<Rightarrow> (Inl e, f)
      | Inr Y \<Rightarrow>
          (let f1 = (if save_path \<in> set (dirs f) then f else os_mkdir save_path f);
               tag = time_tag F;
               x_fname = tag @ ''_X.npy'';
               y_fname = tag @ ''_Y.npy'';
               f2 = save_array (path_join save_path x_fname) (SavedX X) f1 in
           case Y of
             None \<Rightarrow> (Inl (UnboundLocalError ''Y''), f2)
           | Some labels \<Rightarrow>
               (Inr (X, labels), save_array (path_join save_path y_fname) (SavedY labels) f2)))))))"

section \<open>Running a call: results, traces, concrete inputs\<close>

text \<open>What a call returned, without the world; and what it returned with the trace it left.\<close>

definition returned :: "error + 'a \<times> world \<Rightarrow> error + 'a" where
  "returned r = map_sum id fst r"

definition outcome :: "error + 'a \<times> world \<Rightarrow> error + 'a \<times> string list" where
  "outcome r = map_sum id (\<lambda>(a, w). (a, trace w)) r"

text \<open>The same call made twice, the second in the world the first one left.\<close>

definition call_twice ::
  "(world \<Rightarrow> error + 'a \<times> world) \<Rightarrow> world \<Rightarrow> error + ('a \<times> 'a) \<times> world" where
  "call_twice f w =
     (case f w of
        Inl e \<Rightarrow> Inl e
      | Inr (a, w1) \<Rightarrow> (case f w1 of Inl e \<Rightarrow> Inl e | Inr (b, w2) \<Rightarrow> Inr ((a, b), w2)))"

text \<open>
  Concrete inputs for the evaluations below: datasets of \<open>n\<close> examples with one target
  each, a manager for one target with mean 0 and standard deviation 1, worlds with and
  without cache files, and collaborators that compute simple values.
\<close>

definition examples :: "nat \<Rightarrow> dataset" where
  "examples n = map (\<lambda>i. Inr \<lparr>ident = i, y = [real i]\<rparr>) [0 ..< n]"

definition new_manager :: manager where
  "new_manager = \<lparr>seed = 123, out_dir = ''out'', batch_size = 1, Y_dim = 1, Y_mean = [0],
     Y_std = [1], train_dataset = [], train_loader = [], val_dataset = [], val_loader = []\<rparr>"



definition new_world :: world where
  "new_world = \<lparr>files = (\<lambda>p. None), trace = [], memory = (\<lambda>pos. 0)\<rparr>"


definition partly_cached_world :: world where
  "partly_cached_world =
     \<lparr>files = [''out/k_bnn.npy'' \<mapsto> Arr3 [[[Some 1, Some 2]]],
               ''out/log_p_k_given_omega_int.npy'' \<mapsto> Arr2 [[Some 3, Some 4]]],
      trace = [], memory = (\<lambda>pos. 0)\<rparr>"

definition cached_world :: world where
  "cached_world =
     \<lparr>files = [''out/k_bnn.npy'' \<mapsto> Arr3 [[[Some 1, Some 2]]],
               ''out/log_p_k_given_omega_int.npy'' \<mapsto> Arr2 [[Some 3, Some 4]],
               ''out/log_weights_0.npy'' \<mapsto> Arr1 [Some 3, Some 4]],
      trace = [], memory = (\<lambda>pos. 0)\<rparr>"

definition test_env :: env where
  "test_env = \<lparr>
     draw = (\<lambda>e mc_iter s t. 10 + real (ident e)),
     iutils_get_log_p_k_given_omega_int = (\<lambda>k_train k_bnn. Inr (Arr2 [[Some 0], [Some 0]])),
     iutils_get_omega_post = (\<lambda>k_bnn log_p kw lo hi w. Inr (PyArr (Arr2 [[Some 1, Some 2]]), w)),
     iutils_get_mcmc_samples = (\<lambda>path kw w. Inr (Arr2 [[Some 1, Some 2]])),
     iutils_get_kappa_log_weights = (\<lambda>k omega log_p. Inr log_p),
     rng_choice = (\<lambda>seed n p k. if k \<le> n then Inr (map (\<lambda>i. n - 1 - i) [0 ..< k])
                                 else Inl ValueError),
     kde_pdf = (\<lambda>ys. case ys of Arr1 xs \<Rightarrow> map (\<lambda>c. 1) xs | _ \<Rightarrow> [])\<rparr>"


definition test_fetch_env :: fetch_env where
  "test_fetch_env = \<lparr>
     gen_sightlines = [(0, 0)],
     DefaultFilter = (\<lambda>cols filters. Inr (cols, filters)),
     sightlines2links = (\<lambda>sl. Inr (map (\<lambda>s. ''link'') sl)),
     download = (\<lambda>links. Inr [replicate 39 0 @ [2000], replicate 39 0 @ [4000]]),
     process_X = (\<lambda>arr sl fo. Inr (map (\<lambda>s. arr) sl)),
     processing_gen_labels = gen_labels,
     datasets_dir = ''datasets'',
     time_tag = ''1700000000''\<rparr>"

definition new_fs :: fs where
  "new_fs = \<lparr>dirs = [], saved_files = (\<lambda>p. None)\<rparr>"

section \<open>Properties of processing\_utils.py\<close>

subsection \<open>Auxiliary facts\<close>

lemma collect_map_Inr_id: "collect (map Inr vs) = Inr vs"
  by (induction vs) auto

lemma collect_Inr_iff: "collect rs = Inr vs \<longleftrightarrow> rs = map Inr vs"
proof
  show "collect rs = Inr vs \<Longrightarrow> rs = map Inr vs"
    by (induction rs arbitrary: vs) (auto split: sum.splits)
  show "rs = map Inr vs \<Longrightarrow> collect rs = Inr vs"
    by (simp add: collect_map_Inr_id)
qed

lemma collect_map_total:
  assumes "\<forall>x\<in>set xs. g x = Inr (f x)"
  shows "collect (map g xs) = Inr (map f xs)"
proof -
  from assms have "map g xs = map Inr (map f xs)" by simp
  then show ?thesis by (simp only: collect_map_Inr_id)
qed

lemma euclid_dist_sq:
  "(euclid_dist p q)\<^sup>2 = (fst p - fst q)\<^sup>2 + (snd p - snd q)\<^sup>2"
  by (simp add: euclid_dist_def)

lemma in_ball_imp_le:
  assumes "(euclid_dist p q)\<^sup>2 \<le> r * r" and "0 \<le> r"
  shows "euclid_dist p q \<le> r"
proof -
  from assms(1) have "(euclid_dist p q)\<^sup>2 \<le> r\<^sup>2" by (simp add: power2_eq_square)
  then show ?thesis using assms(2) by (rule power2_le_imp_le)
qed

lemma linalg_norm_abs: "linalg_norm v = \<bar>v\<bar>"
  by (simp add: linalg_norm_def)

lemma strip2RAdec_fields:
  assumes "strip2RAdec arr = Inr coords"
  shows "length coords = length arr"
    and "i < length arr \<Longrightarrow>
         getitem (arr ! i) 1 = Inr (fst (coords ! i)) \<and> getitem (arr ! i) 2 = Inr (snd (coords ! i))"
proof -
  let ?g = "\<lambda>x. case getitem x 1 of Inl e \<Rightarrow> Inl e
                  | Inr ra \<Rightarrow> (case getitem x 2 of Inl e \<Rightarrow> Inl e | Inr dec \<Rightarrow> Inr (ra, dec))"
  from assms have eq: "map ?g arr = map Inr coords"
    by (simp add: strip2RAdec_def collect_Inr_iff)
  then have "length (map ?g arr) = length (map Inr coords :: (error + real \<times> real) list)"
    by simp
  then show len: "length coords = length arr" by simp
  assume i: "i < length arr"
  from eq have "map ?g arr ! i = (map Inr coords :: (error + real \<times> real) list) ! i" by simp
  with i len have "?g (arr ! i) = Inr (coords ! i)" by simp
  moreover obtain a b where "coords ! i = (a, b)" by (cases "coords ! i")
  ultimately show
    "getitem (arr ! i) 1 = Inr (fst (coords ! i)) \<and> getitem (arr ! i) 2 = Inr (snd (coords ! i))"
    by (auto split: sum.splits)
qed

lemma take_rows_total:
  assumes "\<forall>i\<in>set idxs. i < length arr"
  shows "take_rows arr idxs = Inr (map (\<lambda>i. arr ! i) idxs)"
  unfolding take_rows_def using assms by (intro collect_map_total) simp

lemma sorted_by_total:
  assumes "\<forall>x\<in>set xs. key x = Inr (k x)"
  shows "sorted_by key xs = Inr (map snd (sort_key fst (zip (map k xs) xs)))"
proof -
  have "collect (map key xs) = Inr (map k xs)" using assms by (rule collect_map_total)
  then show ?thesis by (simp add: sorted_by_def)
qed

lemma set_sorted_zip: "set (map snd (sort_key fst (zip (map k xs) xs))) = set xs"
proof -
  have unzip: "map snd (zip (map k xs) xs) = xs" by (rule map_snd_zip) simp
  have "set (map snd (sort_key fst (zip (map k xs) xs))) = set (map snd (zip (map k xs) xs))"
    by (simp only: set_map set_sort)
  then show ?thesis by (simp only: unzip)
qed

lemma getitem_39: "39 < length obj \<Longrightarrow> getitem obj 39 = Inr (obj ! 39)"
  by (simp add: getitem_def)

subsection \<open>Order of a matched set\<close>

text \<open>
  Claim C4: the matched set returned by \<open>get_x_i\<close> is sorted ascending by the Euclidean
  distance of each object's (ra, dec) from the sightline, and an object at the sightline
  comes first, followed by the others in increasing distance.

  The code does not do this.  Its sort key is the absolute difference of the right
  ascensions alone, so an object close in right ascension and far in declination is placed
  before a nearer one.  For the catalog of three objects at (0, 0), (0.003, 0) and
  (0.001, 0.02) and the sightline (0, 0), with the default threshold, the object at distance
  about 0.02 is returned before the object at distance 0.003.
\<close>

theorem get_x_i_not_sorted_by_distance:
  "compute_X [[0, 0, 0], [1, 0.003, 0], [2, 0.001, 0.02]] [(0, 0)]
     = Inr [[[0, 0, 0], [2, 0.001, 0.02], [1, 0.003, 0]]]
   \<and> euclid_dist (0.003, 0) (0, 0) < euclid_dist (0.001, 0.02) (0, 0)"
proof -
  have in_ball:
    "(euclid_dist (0, 0) (0, 0))\<^sup>2 \<le> DEFAULT_THRESHOLD * DEFAULT_THRESHOLD"
    "(euclid_dist (3 / 1000, 0) (0, 0))\<^sup>2 \<le> DEFAULT_THRESHOLD * DEFAULT_THRESHOLD"
    "(euclid_dist (1 / 1000, 1 / 50) (0, 0))\<^sup>2 \<le> DEFAULT_THRESHOLD * DEFAULT_THRESHOLD"
    unfolding euclid_dist_sq by (simp_all add: DEFAULT_THRESHOLD_def power2_eq_square)
  have "compute_X [[0, 0, 0], [1, 0.003, 0], [2, 0.001, 0.02]] [(0, 0)]
     = Inr [[[0, 0, 0], [2, 0.001, 0.02], [1, 0.003, 0]]]"
    by (simp add: compute_X_def strip2RAdec_def getitem_def KDTree_def get_x_i_def
        query_ball_point_def in_ball take_rows_def sorted_by_def sort_key_fn_def
        linalg_norm_abs np_array_def upt_conv_Cons)
  moreover have "euclid_dist (0.003, 0) (0, 0) < euclid_dist (0.001, 0.02) (0, 0)"
    by (simp add: euclid_dist_def power2_eq_square)
  ultimately show ?thesis by (rule conjI)
qed

subsection \<open>Label of an empty example\<close>

text \<open>
  Claim C5: for a sightline whose matched set is empty, \<open>ylabel\<close> raises
  \<open>EmptyExampleError\<close> rather than returning a default value.

  The code has no such exception.  On the empty example the list of magnitudes is empty,
  \<open>np.mean\<close> returns \<open>nan\<close>, and \<open>ylabel\<close> returns it: no exception is raised.
\<close>

theorem ylabel_empty_no_error: "ylabel [] 39 = Inr NaN \<and> \<not> isl (ylabel [] 39)"
  by (simp add: ylabel_def np_mean_def)

text \<open>
  Claim C5, amended: for every empty matched set and every \<open>IDX\<close>, \<open>ylabel\<close> raises no
  exception and returns \<open>nan\<close>.
\<close>

theorem ylabel_empty_returns_nan: "ylabel [] IDX = Inr NaN"
  by (simp add: ylabel_def np_mean_def)

subsection \<open>Objects of a matched set lie within the threshold\<close>

text \<open>
  Claim C6: for every catalog and sightline, every object in the matched set returned by
  \<open>get_x_i\<close> lies within the radius \<open>THRESHOLD\<close> of the sightline.  The radius is not
  negative, and the tree is the one \<open>compute_X\<close> builds from the catalog; \<open>get_x_i\<close> then
  returns a matched set, and each of its objects has a right ascension and a declination
  whose Euclidean distance from the sightline is at most \<open>THRESHOLD\<close>.
\<close>

theorem get_x_i_within_threshold:
  assumes "strip2RAdec arr = Inr coords" and "KDTree coords = Inr tree"
    and "0 \<le> THRESHOLD"
  shows "\<exists>x_i. get_x_i sightline tree arr THRESHOLD = Inr x_i \<and>
           (\<forall>x\<in>set x_i. \<exists>ra dec. getitem x 1 = Inr ra \<and> getitem x 2 = Inr dec \<and>
                euclid_dist (ra, dec) sightline \<le> THRESHOLD)"
proof -
  let ?idxs = "query_ball_point tree sightline THRESHOLD"
  let ?rows = "map (\<lambda>i. arr ! i) ?idxs"
  from assms(2) have tree: "data tree = coords"
    by (auto simp: KDTree_def split: if_splits)
  have len: "length coords = length arr" using assms(1) by (rule strip2RAdec_fields(1))
  have idx: "\<forall>i\<in>set ?idxs. i < length arr \<and> euclid_dist (coords ! i) sightline \<le> THRESHOLD"
    using assms(3) by (auto simp: query_ball_point_def tree len intro: in_ball_imp_le)
  then have rows: "take_rows arr ?idxs = Inr ?rows" by (intro take_rows_total) simp
  have within: "\<forall>x\<in>set ?rows. \<exists>ra dec. getitem x 1 = Inr ra \<and> getitem x 2 = Inr dec \<and>
                euclid_dist (ra, dec) sightline \<le> THRESHOLD"
  proof
    fix x assume "x \<in> set ?rows"
    then obtain i where i: "i \<in> set ?idxs" and x: "x = arr ! i" by auto
    from i idx have lt: "i < length arr" and d: "euclid_dist (coords ! i) sightline \<le> THRESHOLD"
      by auto
    from strip2RAdec_fields(2)[OF assms(1) lt] d x
    show "\<exists>ra dec. getitem x 1 = Inr ra \<and> getitem x 2 = Inr dec \<and>
                euclid_dist (ra, dec) sightline \<le> THRESHOLD"
      by auto
  qed
  have keys: "\<forall>x\<in>set ?rows. \<exists>k. sort_key_fn sightline x = Inr k"
    using within by (auto simp: sort_key_fn_def)
  define k where "k = (\<lambda>x. case sort_key_fn sightline x of Inr v \<Rightarrow> v | Inl _ \<Rightarrow> 0)"
  have "\<forall>x\<in>set ?rows. sort_key_fn sightline x = Inr (k x)"
    using keys by (auto simp: k_def)
  then have srt: "sorted_by (sort_key_fn sightline) ?rows
        = Inr (map snd (sort_key fst (zip (map k ?rows) ?rows)))"
    by (rule sorted_by_total)
  have res: "get_x_i sightline tree arr THRESHOLD
        = Inr (map snd (sort_key fst (zip (map k ?rows) ?rows)))"
    by (simp add: get_x_i_def rows srt)
  show ?thesis
    unfolding res using within by (simp only: sum.inject set_sorted_zip simp_thms ex_simps)
qed

theorem get_x_i_within_threshold_witness:
  "strip2RAdec [[7, 1, 2], [8, 50, 50]] = Inr [(1, 2), (50, 50)]
   \<and> KDTree [(1, 2), (50, 50)] = Inr \<lparr>data = [(1, 2), (50, 50)]\<rparr>
   \<and> get_x_i (0, 0) \<lparr>data = [(1, 2), (50, 50)]\<rparr> [[7, 1, 2], [8, 50, 50]] 3 = Inr [[7, 1, 2]]
   \<and> euclid_dist (1, 2) (0, 0) \<le> 3"
proof -
  let ?arr = "[[7, 1, 2], [8, 50, 50 :: real]]"
  let ?coords = "[(1, 2), (50, 50 :: real)]"
  have a: "strip2RAdec ?arr = Inr ?coords"
    by (simp add: strip2RAdec_def getitem_def)
  have b: "KDTree ?coords = Inr \<lparr>data = ?coords\<rparr>"
    by (simp add: KDTree_def)
  have q: "query_ball_point \<lparr>data = ?coords\<rparr> (0, 0) 3 = [0]"
    unfolding query_ball_point_def euclid_dist_sq
    by (simp add: upt_conv_Cons power2_eq_square)
  have c: "get_x_i (0, 0) \<lparr>data = ?coords\<rparr> ?arr 3 = Inr [[7, 1, 2]]"
    unfolding get_x_i_def q
    by (simp add: take_rows_def sorted_by_def sort_key_fn_def getitem_def)
  have nonneg: "(0::real) \<le> 3" by simp
  from get_x_i_within_threshold [OF a b nonneg, of "(0, 0)"]
  have "euclid_dist (1, 2) (0, 0) \<le> 3"
    unfolding c by (auto simp: getitem_def)
  with a b c show ?thesis by simp
qed

text \<open>
  A negative \<open>THRESHOLD\<close> is outside the claim: the ball is then that of \<open>- THRESHOLD\<close>, and
  with \<open>THRESHOLD = -1\<close> the objects at distance 0 and 0.5 are returned.
\<close>

lemma get_x_i_negative_threshold:
  "get_x_i (0, 0) \<lparr>data = [(0, 0), (0.5, 0), (50, 50)]\<rparr>
      [[7, 0, 0], [8, 0.5, 0], [9, 50, 50]] (- 1)
     = Inr [[7, 0, 0], [8, 0.5, 0]]"
proof -
  have q: "query_ball_point \<lparr>data = [(0, 0), (0.5, 0), (50, 50)]\<rparr> (0, 0) (- 1) = [0, 1]"
    unfolding query_ball_point_def euclid_dist_sq
    by (simp add: upt_conv_Cons power2_eq_square)
  show ?thesis
    unfolding get_x_i_def q
    by (simp add: take_rows_def sorted_by_def sort_key_fn_def getitem_def linalg_norm_abs
        np_array_def)
qed

subsection \<open>Label of a non-empty example\<close>

text \<open>
  Claim C7: for every non-empty example \<open>x\<close> (whose objects have a field 39) and every
  value of the argument \<open>IDX\<close>, \<open>ylabel x IDX\<close> is the mean of field 39 over the objects
  of \<open>x\<close>, divided by 1000: the argument is overwritten by the constant 39 and the scale is
  the constant 1000.
\<close>

theorem ylabel_mean:
  assumes "x \<noteq> []" and "\<forall>obj\<in>set x. 39 < length obj"
  shows "ylabel x IDX = Inr (Num (sum_list (map (\<lambda>obj. obj ! 39) x) / real (length x) / 1000))"
proof -
  have "collect (map (\<lambda>obj. getitem obj 39) x) = Inr (map (\<lambda>obj. obj ! 39) x)"
    using assms(2) by (intro collect_map_total) (simp add: getitem_39)
  then show ?thesis using assms(1) by (simp add: ylabel_def np_mean_def)
qed

theorem ylabel_mean_witness:
  "ylabel [replicate 39 0 @ [2000], replicate 39 0 @ [4000]] 7 = Inr (Num 3)"
  using ylabel_mean [of "[replicate 39 0 @ [2000], replicate 39 0 @ [4000]]" 7]
  by (simp add: nth_append)

section \<open>Properties of inference\_manager.py\<close>

subsection \<open>Auxiliary facts\<close>

lemma upt_small: "[0..<1] = [0]" "[0..<2] = [0, 1]" "[0..<3] = [0, 1, 2]" "[0..<4] = [0, 1, 2, 3]"
  by (simp_all add: upt_conv_Cons)

text \<open>A cache hit: the stored array is returned, the world is unchanged, nothing is run.\<close>

lemma get_bnn_kappa_cached:
  "files w (path_join (out_dir self) ''k_bnn.npy'') = Some a \<Longrightarrow>
   get_bnn_kappa E self n_samples n_mc_dropout w = Inr (a, w)"
  by (simp add: get_bnn_kappa_def)

lemma get_true_kappa_cached:
  "files w (path_join (out_dir self)
      (''k_'' @ (if is_train then ''train'' else ''val'') @ add_suffix @ ''.npy'')) = Some a \<Longrightarrow>
   get_true_kappa self is_train add_suffix save w = Inr (a, w)"
  by (simp add: get_true_kappa_def)

lemma get_log_p_k_given_omega_int_cached:
  "files w (path_join (out_dir self) ''log_p_k_given_omega_int.npy'') = Some a \<Longrightarrow>
   get_log_p_k_given_omega_int E self n_samples n_mc_dropout w = Inr (a, w)"
  by (simp add: get_log_p_k_given_omega_int_def)

text \<open>Sampling twice from an empty world runs the network once.\<close>

lemma get_bnn_kappa_twice:
  "outcome (call_twice (get_bnn_kappa test_env
       (new_manager\<lparr>batch_size := 2, val_dataset := examples 2,
                    val_loader := [Inr [\<lparr>ident = 0, y = [0]\<rparr>, \<lparr>ident = 1, y = [1]\<rparr>]]\<rparr>) 1 1)
     new_world)
   = Inr ((Arr3 [[[Some 10]], [[Some 11]]], Arr3 [[[Some 10]], [[Some 11]]]), [''model.sample''])"
  by (simp add: outcome_def call_twice_def get_bnn_kappa_def new_manager_def new_world_def
      path_join_def np_empty4_def examples_def upt_small Let_def assign_mc_def mc_samples_def
      test_env_def transpose_reshape_def np_save_def log_call_def)








subsection \<open>Cache files\<close>

text \<open>
  Claim C1: each computation with a cache file (\<open>get_bnn_kappa\<close>, \<open>get_true_kappa\<close>,
  \<open>get_log_p_k_given_omega_int\<close>, \<open>get_kappa_log_weights\<close>) looks for the file before it
  computes, so a second call with the same key runs the underlying computation no more.

  The first three do (see the facts on cache hits above); \<open>get_kappa_log_weights\<close> builds
  the path and saves to it, but never looks for the file.  In a world where \<open>k_bnn.npy\<close> and
  \<open>log_p_k_given_omega_int.npy\<close> exist, two calls for index 0 both run
  \<open>iutils.get_kappa_log_weights\<close>: the trace holds it twice.
\<close>

theorem get_kappa_log_weights_recomputes:
  "outcome (call_twice (get_kappa_log_weights test_env new_manager 0 2 1 ''chain.h5'' [])
              partly_cached_world)
   = Inr ((Arr1 [Some 3, Some 4], Arr1 [Some 3, Some 4]),
          [''iutils.get_kappa_log_weights'', ''iutils.get_kappa_log_weights''])"
  by (simp add: outcome_def call_twice_def get_kappa_log_weights_def get_bnn_kappa_def
      get_log_p_k_given_omega_int_def new_manager_def partly_cached_world_def path_join_def
      test_env_def np_save_def log_call_def)

text \<open>The same with the file \<open>log_weights_0.npy\<close> present from the start: one call, one run.\<close>

lemma get_kappa_log_weights_ignores_file:
  "outcome (get_kappa_log_weights test_env new_manager 0 2 1 ''chain.h5'' [] cached_world)
   = Inr (Arr1 [Some 3, Some 4], [''iutils.get_kappa_log_weights''])"
  by (simp add: outcome_def get_kappa_log_weights_def get_bnn_kappa_def
      get_log_p_k_given_omega_int_def new_manager_def cached_world_def path_join_def
      test_env_def np_save_def log_call_def)

subsection \<open>Samples for every test example\<close>

text \<open>
  Claim C2: for every loaded test dataset, \<open>get_bnn_kappa\<close> returns an array of shape
  \<open>[n_examples, n_targets, n_mc_dropout * n_samples]\<close> in which every row holds sampled
  values: no example is skipped.

  The test loader of \<open>load_dataset\<close> has \<open>drop_last=True\<close>.  With three test examples and
  batch size two, the loader yields one batch; the array has three rows, and the row of the
  third example is what \<open>np.empty\<close> left there: no sample was drawn for it.
\<close>

theorem get_bnn_kappa_skips_last_examples:
  "load_dataset new_manager (examples 3) False 2 []
     = Inr (new_manager\<lparr>batch_size := 2, val_dataset := examples 3,
                         val_loader := [Inr [\<lparr>ident = 0, y = [0]\<rparr>, \<lparr>ident = 1, y = [1]\<rparr>]]\<rparr>)
   \<and> returned (get_bnn_kappa test_env
        (new_manager\<lparr>batch_size := 2, val_dataset := examples 3,
                      val_loader := [Inr [\<lparr>ident = 0, y = [0]\<rparr>, \<lparr>ident = 1, y = [1]\<rparr>]]\<rparr>)
        1 1 new_world)
     = Inr (Arr3 [[[Some 10]], [[Some 11]], [[None]]])"
proof -
  have "load_dataset new_manager (examples 3) False 2 []
     = Inr (new_manager\<lparr>batch_size := 2, val_dataset := examples 3,
                         val_loader := [Inr [\<lparr>ident = 0, y = [0]\<rparr>, \<lparr>ident = 1, y = [1]\<rparr>]]\<rparr>)"
    by (simp add: load_dataset_def DataLoader_def examples_def new_manager_def upt_small Let_def)
  moreover have "returned (get_bnn_kappa test_env
        (new_manager\<lparr>batch_size := 2, val_dataset := examples 3,
                      val_loader := [Inr [\<lparr>ident = 0, y = [0]\<rparr>, \<lparr>ident = 1, y = [1]\<rparr>]]\<rparr>)
        1 1 new_world)
     = Inr (Arr3 [[[Some 10]], [[Some 11]], [[None]]])"
    by (simp add: returned_def get_bnn_kappa_def new_manager_def new_world_def path_join_def
        np_empty4_def examples_def upt_small Let_def assign_mc_def mc_samples_def test_env_def
        transpose_reshape_def)
  ultimately show ?thesis by (rule conjI)
qed

text \<open>
  After \<open>reset_val_dataset\<close> the loader keeps the last, smaller batch.  Its rows are then
  written at \<open>i*B\<close> for its own size \<open>B\<close>: with three examples and batch size two, the
  samples of the third example overwrite the row of the second, and the third row is again
  never written.
\<close>

lemma get_bnn_kappa_partial_batch_offset:
  "DataLoader (examples 3) 2 False
     = Inr [Inr [\<lparr>ident = 0, y = [0]\<rparr>, \<lparr>ident = 1, y = [1]\<rparr>], Inr [\<lparr>ident = 2, y = [2]\<rparr>]]
   \<and> returned (get_bnn_kappa test_env
        (new_manager\<lparr>batch_size := 2, val_dataset := examples 3,
           val_loader := [Inr [\<lparr>ident = 0, y = [0]\<rparr>, \<lparr>ident = 1, y = [1]\<rparr>],
                          Inr [\<lparr>ident = 2, y = [2]\<rparr>]]\<rparr>)
        1 1 new_world)
     = Inr (Arr3 [[[Some 10]], [[Some 12]], [[None]]])"
  by (simp add: returned_def get_bnn_kappa_def new_manager_def new_world_def path_join_def
      np_empty4_def examples_def upt_small Let_def assign_mc_def mc_samples_def test_env_def
      transpose_reshape_def DataLoader_def)

subsection \<open>True labels of the training set\<close>

text \<open>
  Claim C3: for every loaded training dataset, \<open>get_true_kappa(is_train=True)\<close> returns an
  array of shape \<open>[n_train_examples, n_targets]\<close>, one de-standardised row per training
  example.

  The array is allocated with \<open>len(self.val_dataset)\<close> rows also when \<open>is_train\<close> is true.
  With two training examples and four test examples (batch size two) the result has four
  rows, the last two never written.  With four training examples and two test examples the
  second batch does not fit and the call raises \<open>ValueError\<close>.
\<close>

theorem get_true_kappa_train_rows:
  "load_dataset new_manager (examples 2) True 2 [1, 0]
     = Inr (new_manager\<lparr>batch_size := 2, train_dataset := examples 2,
              train_loader := [Inr [\<lparr>ident = 1, y = [1]\<rparr>, \<lparr>ident = 0, y = [0]\<rparr>]]\<rparr>)
   \<and> returned (get_true_kappa
        (new_manager\<lparr>batch_size := 2, train_dataset := examples 2,
           train_loader := [Inr [\<lparr>ident = 1, y = [1]\<rparr>, \<lparr>ident = 0, y = [0]\<rparr>]],
           val_dataset := examples 4,
           val_loader := [Inr [\<lparr>ident = 0, y = [0]\<rparr>, \<lparr>ident = 1, y = [1]\<rparr>],
                          Inr [\<lparr>ident = 2, y = [2]\<rparr>, \<lparr>ident = 3, y = [3]\<rparr>]]\<rparr>)
        True [] True new_world)
     = Inr (Arr2 [[Some 1], [Some 0], [None], [None]])
   \<and> returned (get_true_kappa
        (new_manager\<lparr>batch_size := 2, train_dataset := examples 4,
           train_loader := [Inr [\<lparr>ident = 0, y = [0]\<rparr>, \<lparr>ident = 1, y = [1]\<rparr>],
                            Inr [\<lparr>ident = 2, y = [2]\<rparr>, \<lparr>ident = 3, y = [3]\<rparr>]],
           val_dataset := examples 2,
           val_loader := [Inr [\<lparr>ident = 0, y = [0]\<rparr>, \<lparr>ident = 1, y = [1]\<rparr>]]\<rparr>)
        True [] True new_world)
     = Inl ValueError"
proof -
  have a: "load_dataset new_manager (examples 2) True 2 [1, 0]
     = Inr (new_manager\<lparr>batch_size := 2, train_dataset := examples 2,
              train_loader := [Inr [\<lparr>ident = 1, y = [1]\<rparr>, \<lparr>ident = 0, y = [0]\<rparr>]]\<rparr>)"
    by (simp add: load_dataset_def DataLoader_def examples_def new_manager_def upt_small Let_def)
  have b: "returned (get_true_kappa
        (new_manager\<lparr>batch_size := 2, train_dataset := examples 2,
           train_loader := [Inr [\<lparr>ident = 1, y = [1]\<rparr>, \<lparr>ident = 0, y = [0]\<rparr>]],
           val_dataset := examples 4,
           val_loader := [Inr [\<lparr>ident = 0, y = [0]\<rparr>, \<lparr>ident = 1, y = [1]\<rparr>],
                          Inr [\<lparr>ident = 2, y = [2]\<rparr>, \<lparr>ident = 3, y = [3]\<rparr>]]\<rparr>)
        True [] True new_world)
     = Inr (Arr2 [[Some 1], [Some 0], [None], [None]])"
    by (simp add: returned_def get_true_kappa_def new_manager_def new_world_def path_join_def
        examples_def upt_small Let_def assign_rows_def destandardize_def)
  have c: "returned (get_true_kappa
        (new_manager\<lparr>batch_size := 2, train_dataset := examples 4,
           train_loader := [Inr [\<lparr>ident = 0, y = [0]\<rparr>, \<lparr>ident = 1, y = [1]\<rparr>],
                            Inr [\<lparr>ident = 2, y = [2]\<rparr>, \<lparr>ident = 3, y = [3]\<rparr>]],
           val_dataset := examples 2,
           val_loader := [Inr [\<lparr>ident = 0, y = [0]\<rparr>, \<lparr>ident = 1, y = [1]\<rparr>]]\<rparr>)
        True [] True new_world)
     = Inl ValueError"
    by (simp add: returned_def get_true_kappa_def new_manager_def new_world_def path_join_def
        examples_def upt_small Let_def assign_rows_def destandardize_def)
  from a b c show ?thesis by (intro conjI)
qed

subsection \<open>What run\_mcmc\_for\_omega\_post returns\<close>

text \<open>
  Claim C8: \<open>run_mcmc_for_omega_post\<close> returns the posterior samples of the chain to its
  caller.

  It returns \<open>None\<close>.  Here \<open>get_omega_post\<close> returns an array of samples, and the method
  that called it returns \<open>None\<close> all the same.
\<close>

theorem run_mcmc_drops_samples:
  "returned (iutils_get_omega_post test_env (Arr3 [[[Some 1, Some 2]]]) (Arr2 [[Some 3, Some 4]])
               [] None None (log_call ''iutils.get_omega_post'' cached_world))
     = Inr (PyArr (Arr2 [[Some 1, Some 2]]))
   \<and> returned (run_mcmc_for_omega_post test_env new_manager 2 1 [] None None cached_world)
     = Inr PyNone"
  by (simp add: returned_def run_mcmc_for_omega_post_def get_bnn_kappa_def
      get_log_p_k_given_omega_int_def new_manager_def cached_world_def path_join_def
      test_env_def np_save_def log_call_def)

text \<open>
  Claim C8, amended: whenever \<open>run_mcmc_for_omega_post\<close> returns, it returns \<open>None\<close>.  It
  has then obtained \<open>k_bnn\<close> from \<open>get_bnn_kappa\<close> and, in the world that call left,
  \<open>log_p_k_given_omega_int\<close> from \<open>get_log_p_k_given_omega_int\<close>, and has passed these two
  arrays, \<open>mcmc_kwargs\<close> and the bounds to \<open>iutils.get_omega_post\<close>; what that function
  returned is dropped, and the world it left is the world the method leaves.
\<close>

theorem run_mcmc_returns_none:
  assumes "run_mcmc_for_omega_post E self n_samples n_mc_dropout mcmc_kwargs lo hi w = Inr (v, w')"
  shows "v = PyNone \<and>
    (\<exists>k_bnn w1 log_p w2 r.
        get_bnn_kappa E self n_samples n_mc_dropout w = Inr (k_bnn, w1)
      \<and> get_log_p_k_given_omega_int E self n_samples n_mc_dropout w1 = Inr (log_p, w2)
      \<and> iutils_get_omega_post E k_bnn log_p mcmc_kwargs lo hi
            (log_call ''iutils.get_omega_post'' w2) = Inr (r, w'))"
  using assms unfolding run_mcmc_for_omega_post_def
  by (auto split: sum.splits prod.splits)

theorem run_mcmc_returns_none_witness:
  "run_mcmc_for_omega_post test_env new_manager 2 1 [] None (Some 5) cached_world
     = Inr (PyNone, log_call ''iutils.get_omega_post'' cached_world)
   \<and> get_bnn_kappa test_env new_manager 2 1 cached_world
     = Inr (Arr3 [[[Some 1, Some 2]]], cached_world)
   \<and> get_log_p_k_given_omega_int test_env new_manager 2 1 cached_world
     = Inr (Arr2 [[Some 3, Some 4]], cached_world)
   \<and> iutils_get_omega_post test_env (Arr3 [[[Some 1, Some 2]]]) (Arr2 [[Some 3, Some 4]]) []
        None (Some 5) (log_call ''iutils.get_omega_post'' cached_world)
     = Inr (PyArr (Arr2 [[Some 1, Some 2]]), log_call ''iutils.get_omega_post'' cached_world)"
proof -
  have run: "run_mcmc_for_omega_post test_env new_manager 2 1 [] None (Some 5) cached_world
     = Inr (PyNone, log_call ''iutils.get_omega_post'' cached_world)"
    by (simp add: run_mcmc_for_omega_post_def get_bnn_kappa_def get_log_p_k_given_omega_int_def
        new_manager_def cached_world_def path_join_def test_env_def np_save_def log_call_def)
  have bnn: "get_bnn_kappa test_env new_manager 2 1 cached_world
     = Inr (Arr3 [[[Some 1, Some 2]]], cached_world)"
    by (simp add: get_bnn_kappa_def new_manager_def cached_world_def path_join_def)
  have logp: "get_log_p_k_given_omega_int test_env new_manager 2 1 cached_world
     = Inr (Arr2 [[Some 3, Some 4]], cached_world)"
    by (simp add: get_log_p_k_given_omega_int_def new_manager_def cached_world_def path_join_def)
  from run_mcmc_returns_none [OF run]
  obtain k_bnn w1 log_p w2 r where
      1: "get_bnn_kappa test_env new_manager 2 1 cached_world = Inr (k_bnn, w1)"
  and 2: "get_log_p_k_given_omega_int test_env new_manager 2 1 w1 = Inr (log_p, w2)"
  and 3: "iutils_get_omega_post test_env k_bnn log_p [] None (Some 5)
            (log_call ''iutils.get_omega_post'' w2)
          = Inr (r, log_call ''iutils.get_omega_post'' cached_world)"
    by blast
  from 1 bnn have k: "k_bnn = Arr3 [[[Some 1, Some 2]]]" and w1: "w1 = cached_world"
    by simp_all
  from 2 logp have l: "log_p = Arr2 [[Some 3, Some 4]]" and w2: "w2 = cached_world"
    unfolding w1 by simp_all
  from 3 have "iutils_get_omega_post test_env (Arr3 [[[Some 1, Some 2]]])
        (Arr2 [[Some 3, Some 4]]) [] None (Some 5) (log_call ''iutils.get_omega_post'' cached_world)
     = Inr (r, log_call ''iutils.get_omega_post'' cached_world)"
    unfolding k l w2 .
  moreover have "iutils_get_omega_post test_env (Arr3 [[[Some 1, Some 2]]])
        (Arr2 [[Some 3, Some 4]]) [] None (Some 5) (log_call ''iutils.get_omega_post'' cached_world)
     = Inr (PyArr (Arr2 [[Some 1, Some 2]]), log_call ''iutils.get_omega_post'' cached_world)"
    by (simp add: test_env_def)
  ultimately show ?thesis using run bnn logp by simp
qed

subsection \<open>The subsample of reset\_val\_dataset\<close>















section \<open>Properties of fetcher.py\<close>

text \<open>
  Claim C9: \<open>fetch\<close> called with \<open>gen_Y=False\<close> raises a \<open>NameError\<close>, because \<open>Y\<close> is read
  for saving without having been assigned; \<open>fetch\<close> returns \<open>(X, Y)\<close> only when \<open>gen_Y\<close> is
  true.  The first part is for calls in which the collaborators that run before the save
  (filter, links, download, processing) do not raise; the exception is
  \<open>UnboundLocalError\<close>, the \<open>NameError\<close> for local variables.
\<close>

theorem fetch_without_labels:
  "(\<forall>filter_obj links arr X.
       DefaultFilter F cols filters = Inr filter_obj \<and>
       sightlines2links F (case sightlines of None \<Rightarrow> gen_sightlines F | Some s \<Rightarrow> s) = Inr links \<and>
       download F links = Inr arr \<and>
       process_X F arr (case sightlines of None \<Rightarrow> gen_sightlines F | Some s \<Rightarrow> s) filter_obj
         = Inr X
       \<longrightarrow> fst (fetch F sightlines cols filters save_path False verbose f)
             = Inl (UnboundLocalError ''Y'')
           \<and> is_NameError (UnboundLocalError ''Y''))
   \<and> (\<forall>r. fst (fetch F sightlines cols filters save_path gen_Y verbose f) = Inr r \<longrightarrow> gen_Y)"
proof (intro conjI allI impI)
  fix filter_obj links arr X
  assume "DefaultFilter F cols filters = Inr filter_obj \<and>
       sightlines2links F (case sightlines of None \<Rightarrow> gen_sightlines F | Some s \<Rightarrow> s) = Inr links \<and>
       download F links = Inr arr \<and>
       process_X F arr (case sightlines of None \<Rightarrow> gen_sightlines F | Some s \<Rightarrow> s) filter_obj
         = Inr X"
  then show "fst (fetch F sightlines cols filters save_path False verbose f)
      = Inl (UnboundLocalError ''Y'')"
    by (simp add: fetch_def Let_def)
next
  show "is_NameError (UnboundLocalError ''Y'')" by (simp add: is_NameError_def)
next
  fix r
  assume "fst (fetch F sightlines cols filters save_path gen_Y verbose f) = Inr r"
  then show gen_Y
    by (cases gen_Y) (auto simp: fetch_def Let_def split: sum.splits option.splits)
qed

theorem fetch_without_labels_witness:
  "fst (fetch test_fetch_env None None None None False True new_fs) = Inl (UnboundLocalError ''Y'')
   \<and> fst (fetch test_fetch_env None None None None True True new_fs)
       = Inr ([[replicate 39 0 @ [2000], replicate 39 0 @ [4000]]], [Num 3])"
proof -
  have a: "DefaultFilter test_fetch_env None None = Inr (None, None) \<and>
       sightlines2links test_fetch_env
          (case None of None \<Rightarrow> gen_sightlines test_fetch_env | Some s \<Rightarrow> s) = Inr [''link''] \<and>
       download test_fetch_env [''link'']
         = Inr [replicate 39 0 @ [2000], replicate 39 0 @ [4000]] \<and>
       process_X test_fetch_env [replicate 39 0 @ [2000], replicate 39 0 @ [4000]]
          (case None of None \<Rightarrow> gen_sightlines test_fetch_env | Some s \<Rightarrow> s) (None, None)
         = Inr [[replicate 39 0 @ [2000], replicate 39 0 @ [4000]]]"
    by (simp add: test_fetch_env_def)
  have b: "fst (fetch test_fetch_env None None None None True True new_fs)
       = Inr ([[replicate 39 0 @ [2000], replicate 39 0 @ [4000]]], [Num 3])"
    by (simp add: fetch_def test_fetch_env_def Let_def gen_labels_def ylabel_def getitem_def
        np_mean_def nth_append)
  from fetch_without_labels [of test_fetch_env None None None None True new_fs True] a b
  show ?thesis by blast
qed

end
